theory Spec2Isabelle
  imports Complex_Main
begin

section \<open>JavaScript numbers\<close>

text \<open>
  A JavaScript \<open>number\<close> is either finite or one of the three special values
  \<open>Infinity\<close>, \<open>-Infinity\<close> and \<open>NaN\<close>. Finite values are carried as exact reals:
  rounding to 53 bits, overflow to \<open>Infinity\<close> and the sign of zero are not modelled.
  The special values are modelled, because the code divides by values that may be zero
  and JavaScript does not raise there.
\<close>

datatype number = Fin real | PosInf | NegInf | NaN

fun is_finite :: "number \<Rightarrow> bool" where
  "is_finite (Fin _) = True"
| "is_finite _ = False"

definition signed_inf :: "real \<Rightarrow> number" where
  "signed_inf s = (if 0 < s then PosInf else if s < 0 then NegInf else NaN)"

fun num_neg :: "number \<Rightarrow> number" where
  "num_neg (Fin a) = Fin (- a)"
| "num_neg PosInf = NegInf"
| "num_neg NegInf = PosInf"
| "num_neg NaN = NaN"

fun num_add :: "number \<Rightarrow> number \<Rightarrow> number" where
  "num_add (Fin a) (Fin b) = Fin (a + b)"
| "num_add (Fin a) PosInf = PosInf"
| "num_add (Fin a) NegInf = NegInf"
| "num_add PosInf (Fin b) = PosInf"
| "num_add NegInf (Fin b) = NegInf"
| "num_add PosInf PosInf = PosInf"
| "num_add NegInf NegInf = NegInf"
| "num_add PosInf NegInf = NaN"
| "num_add NegInf PosInf = NaN"
| "num_add NaN _ = NaN"
| "num_add _ NaN = NaN"

fun num_mul :: "number \<Rightarrow> number \<Rightarrow> number" where
  "num_mul (Fin a) (Fin b) = Fin (a * b)"
| "num_mul (Fin a) PosInf = signed_inf a"
| "num_mul (Fin a) NegInf = signed_inf (- a)"
| "num_mul PosInf (Fin b) = signed_inf b"
| "num_mul NegInf (Fin b) = signed_inf (- b)"
| "num_mul PosInf PosInf = PosInf"
| "num_mul NegInf NegInf = PosInf"
| "num_mul PosInf NegInf = NegInf"
| "num_mul NegInf PosInf = NegInf"
| "num_mul NaN _ = NaN"
| "num_mul _ NaN = NaN"

fun num_div :: "number \<Rightarrow> number \<Rightarrow> number" where
  "num_div (Fin a) (Fin b) = (if b = 0 then signed_inf a else Fin (a / b))"
| "num_div (Fin a) PosInf = Fin 0"
| "num_div (Fin a) NegInf = Fin 0"
| "num_div PosInf (Fin b) = (if b < 0 then NegInf else PosInf)"
| "num_div NegInf (Fin b) = (if b < 0 then PosInf else NegInf)"
| "num_div PosInf PosInf = NaN"
| "num_div NegInf NegInf = NaN"
| "num_div PosInf NegInf = NaN"
| "num_div NegInf PosInf = NaN"
| "num_div NaN _ = NaN"
| "num_div _ NaN = NaN"

text \<open>Comparisons: every comparison with \<open>NaN\<close> is false.\<close>

fun num_le :: "number \<Rightarrow> number \<Rightarrow> bool" where
  "num_le (Fin a) (Fin b) = (a \<le> b)"
| "num_le NaN _ = False"
| "num_le _ NaN = False"
| "num_le NegInf _ = True"
| "num_le _ PosInf = True"
| "num_le PosInf _ = False"
| "num_le _ NegInf = False"

fun num_lt :: "number \<Rightarrow> number \<Rightarrow> bool" where
  "num_lt (Fin a) (Fin b) = (a < b)"
| "num_lt NaN _ = False"
| "num_lt _ NaN = False"
| "num_lt PosInf _ = False"
| "num_lt _ NegInf = False"
| "num_lt NegInf _ = True"
| "num_lt _ PosInf = True"

fun num_abs :: "number \<Rightarrow> number" where
  "num_abs (Fin a) = Fin \<bar>a\<bar>"
| "num_abs PosInf = PosInf"
| "num_abs NegInf = PosInf"
| "num_abs NaN = NaN"

instantiation number :: "{plus, minus, uminus, times, inverse, ord, abs}"
begin

definition plus_number :: "number \<Rightarrow> number \<Rightarrow> number" where
  "plus_number a b = num_add a b"

definition uminus_number :: "number \<Rightarrow> number" where
  "uminus_number a = num_neg a"

definition minus_number :: "number \<Rightarrow> number \<Rightarrow> number" where
  "minus_number a b = num_add a (num_neg b)"

definition times_number :: "number \<Rightarrow> number \<Rightarrow> number" where
  "times_number a b = num_mul a b"

definition divide_number :: "number \<Rightarrow> number \<Rightarrow> number" where
  "divide_number a b = num_div a b"

definition inverse_number :: "number \<Rightarrow> number" where
  "inverse_number a = num_div (Fin 1) a"

definition less_eq_number :: "number \<Rightarrow> number \<Rightarrow> bool" where
  "less_eq_number a b = num_le a b"

definition less_number :: "number \<Rightarrow> number \<Rightarrow> bool" where
  "less_number a b = num_lt a b"

definition abs_number :: "number \<Rightarrow> number" where
  "abs_number a = num_abs a"

instance ..

end

text \<open>The functions of the \<open>Math\<close> object that the code calls.\<close>

fun Math_sqrt :: "number \<Rightarrow> number" where
  "Math_sqrt (Fin a) = (if 0 \<le> a then Fin (sqrt a) else NaN)"
| "Math_sqrt PosInf = PosInf"
| "Math_sqrt NegInf = NaN"
| "Math_sqrt NaN = NaN"

text \<open>\<open>Math.round\<close> rounds to the nearest integer, a tie towards \<open>+Infinity\<close>:
  this is \<^term>\<open>\<lambda>a::real. \<lfloor>a + 1 / 2\<rfloor>\<close>, which is \<^const>\<open>round\<close>.\<close>

fun Math_round :: "number \<Rightarrow> number" where
  "Math_round (Fin a) = Fin (of_int (round a))"
| "Math_round n = n"

fun Math_floor :: "number \<Rightarrow> number" where
  "Math_floor (Fin a) = Fin (of_int \<lfloor>a\<rfloor>)"
| "Math_floor n = n"

definition Math_abs :: "number \<Rightarrow> number" where
  "Math_abs a = \<bar>a\<bar>"

fun Math_max :: "number \<Rightarrow> number \<Rightarrow> number" where
  "Math_max NaN _ = NaN"
| "Math_max _ NaN = NaN"
| "Math_max a b = (if a \<le> b then b else a)"

fun Math_min :: "number \<Rightarrow> number \<Rightarrow> number" where
  "Math_min NaN _ = NaN"
| "Math_min _ NaN = NaN"
| "Math_min a b = (if a \<le> b then a else b)"

text \<open>\<open>Math.pow\<close> at a natural exponent; the code only calls it with exponent 2.\<close>

primrec Math_pow :: "number \<Rightarrow> nat \<Rightarrow> number" where
  "Math_pow b 0 = Fin 1"
| "Math_pow b (Suc n) = b * Math_pow b n"




section \<open>courtCoordinates.ts\<close>

text \<open>\<open>Position\<close> and \<open>CourtPosition\<close> are the same structural type \<open>{x, y}\<close>.\<close>

record Position =
  x :: number
  y :: number

type_synonym CourtPosition = Position

text \<open>\<open>CourtDimensions\<close> and the props of the heat map both have the fields \<open>width\<close>
  and \<open>height\<close>; the two fields are a record of their own, which both extend, so that
  each keeps the names of the source.\<close>

record Size =
  width :: number
  height :: number

record CourtDimensions = Size +
  courtLengthFeet :: number
  courtWidthFeet :: number

datatype BasketSide = Left | Right

definition screenToCourtCoordinates :: "Position \<Rightarrow> CourtDimensions \<Rightarrow> CourtPosition" where
  "screenToCourtCoordinates screenPos dimensions =
     (let normalizedX = x screenPos / width dimensions;
          normalizedY = y screenPos / height dimensions;
          nbaX = (normalizedY - Fin 0.5) * Fin 500;
          nbaY = Fin 50 + (normalizedX * Fin 350)
      in \<lparr>x = Math_round nbaX, y = Math_round nbaY\<rparr>)"

definition courtToScreenCoordinates :: "CourtPosition \<Rightarrow> CourtDimensions \<Rightarrow> Position" where
  "courtToScreenCoordinates courtPos dimensions =
     (let scaleX = width dimensions / courtLengthFeet dimensions;
          scaleY = height dimensions / courtWidthFeet dimensions
      in \<lparr>x = x courtPos * scaleX, y = y courtPos * scaleY\<rparr>)"

definition isWithinCourtBounds :: "CourtPosition \<Rightarrow> CourtDimensions \<Rightarrow> bool" where
  "isWithinCourtBounds courtPos dimensions =
     (x courtPos \<ge> Fin 0 \<and>
      x courtPos \<le> courtLengthFeet dimensions \<and>
      y courtPos \<ge> Fin 0 \<and>
      y courtPos \<le> courtWidthFeet dimensions)"




definition DEFAULT_COURT_DIMENSIONS :: CourtDimensions where
  "DEFAULT_COURT_DIMENSIONS =
     \<lparr>width = Fin 800, height = Fin 400, courtLengthFeet = Fin 94, courtWidthFeet = Fin 50\<rparr>"

section \<open>ShotPredictor.tsx: the click handler\<close>

record ShotData =
  LOC_X :: number
  LOC_Y :: number
  SHOT_DISTANCE :: number
  SHOT_TYPE :: string
  SHOT_ZONE_BASIC :: string
  PLAYER_NAME :: string

text \<open>
  The part of \<open>handleCourtClick\<close> between the coordinate conversion and the request:
  the distance to the basket at \<open>(0, 80)\<close> of the analytics convention, the shot type,
  the zone label, and the \<open>shotData\<close> object handed to \<open>apiClient.predictShot\<close>.
\<close>

definition shotData :: "CourtPosition \<Rightarrow> string \<Rightarrow> ShotData" where
  "shotData courtPos selectedPlayer =
     (let basketX = Fin 0;
          basketY = Fin 80;
          distance = Math_sqrt
            (Math_pow ((x courtPos - basketX) / Fin 10) 2 +
             Math_pow ((y courtPos - basketY) / Fin 10) 2);
          shotType = (if distance > Fin 23.75 then 3 else 2 :: nat);
          shotZone =
            (if distance \<le> Fin 4 then ''Restricted Area''
             else if distance \<le> Fin 8 then ''In The Paint (Non-RA)''
             else if distance > Fin 23.75 then
               (if Math_abs (x courtPos) > Fin 200 \<and> y courtPos < Fin 150
                then (if x courtPos > Fin 0 then ''Right Corner 3'' else ''Left Corner 3'')
                else ''Above the Break 3'')
             else ''Mid-Range'')
      in \<lparr>LOC_X = x courtPos,
          LOC_Y = y courtPos,
          SHOT_DISTANCE = distance,
          SHOT_TYPE = (if shotType = 3 then ''3PT Field Goal'' else ''2PT Field Goal''),
          SHOT_ZONE_BASIC = shotZone,
          PLAYER_NAME = selectedPlayer\<rparr>)"

record MouseEvent =
  clientX :: number
  clientY :: number

record DOMRect =
  rect_left :: number
  rect_top :: number

datatype ClickOutcome = SetError string | PredictShot ShotData

text \<open>\<open>selectedPlayer\<close> is \<open>string | null\<close>; \<open>!selectedPlayer\<close> holds for \<open>null\<close> and
  for the empty string. \<open>w\<close> and \<open>h\<close> are the component's \<open>width\<close> and \<open>height\<close>.\<close>

definition handleCourtClick ::
  "string option \<Rightarrow> MouseEvent \<Rightarrow> DOMRect \<Rightarrow> number \<Rightarrow> number \<Rightarrow> ClickOutcome" where
  "handleCourtClick selectedPlayer event rect w h =
     (case selectedPlayer of
        None \<Rightarrow> SetError ''Please select a player first''
      | Some player \<Rightarrow>
          if player = [] then SetError ''Please select a player first''
          else
            let clickX = clientX event - rect_left rect;
                clickY = clientY event - rect_top rect;
                courtPos = screenToCourtCoordinates
                  \<lparr>x = clickX, y = clickY\<rparr>
                  \<lparr>width = w, height = h, courtLengthFeet = Fin 47, courtWidthFeet = Fin 50\<rparr>
            in PredictShot (shotData courtPos player))"

section \<open>JavaScript operators on optional and numeric values\<close>

text \<open>\<open>a ?? b\<close>, and the default of a destructured parameter: \<open>b\<close> when \<open>a\<close> is absent.\<close>

definition nullish :: "'a option \<Rightarrow> 'a \<Rightarrow> 'a" where
  "nullish a b = (case a of None \<Rightarrow> b | Some v \<Rightarrow> v)"

text \<open>A number is falsy when it is zero or \<open>NaN\<close>; \<open>a || b\<close> is \<open>a\<close> unless \<open>a\<close> is falsy.\<close>

fun truthy :: "number \<Rightarrow> bool" where
  "truthy (Fin a) = (a \<noteq> 0)"
| "truthy NaN = False"
| "truthy _ = True"

definition logical_or :: "number \<Rightarrow> number \<Rightarrow> number" where
  "logical_or a b = (if truthy a then a else b)"

text \<open>\<open>a === b\<close> and \<open>a !== b\<close> on numbers: \<open>NaN\<close> is not equal to itself.\<close>

definition strict_eq :: "number \<Rightarrow> number \<Rightarrow> bool" where
  "strict_eq a b = (if a = NaN then False else a = b)"

definition strict_neq :: "number \<Rightarrow> number \<Rightarrow> bool" where
  "strict_neq a b = (if strict_eq a b then False else True)"

section \<open>The d3 scales the heat map configures\<close>

text \<open>
  Modelled from the spec: \<open>d3.scaleSequential\<close> is code of the d3 library, which is not
  under src/. The spec's colour scale, "whose domain is [avg - band, avg + band] clamped
  at both ends", written the way d3-scale computes
  \<open>scaleSequential(interpolator).domain([x0, x1]).clamp(true)\<close>: the value is normalised
  to \<open>(v - x0) * (1 / (x1 - x0))\<close>, clamped to \<open>[0, 1]\<close> and handed to the interpolator;
  a domain of width zero gives \<open>0.5\<close>, and \<open>NaN\<close> gives \<open>undefined\<close> (here \<open>None\<close>).
\<close>

definition scaleSequential :: "(number \<Rightarrow> 'c) \<Rightarrow> number \<Rightarrow> number \<Rightarrow> number \<Rightarrow> 'c option" where
  "scaleSequential interpolator x0 x1 v =
     (let k10 = (if strict_eq x0 x1 then Fin 0 else Fin 1 / (x1 - x0))
      in if v = NaN then None
         else Some (interpolator
           (if strict_eq k10 (Fin 0) then Fin 0.5
            else Math_max (Fin 0) (Math_min (Fin 1) ((v - x0) * k10)))))"

text \<open>
  Modelled from the spec: \<open>d3.scaleLinear\<close> is code of the d3 library, which is not under
  src/. The spec's alpha map, "a linear map from |weight - avg| (domain [0, band]) to
  [0.18, maxOpacity], clamped", written the way d3-scale computes
  \<open>scaleLinear().domain([d0, d1]).range([r0, r1]).clamp(true)\<close>: the value is clamped
  to the domain, normalised, and interpolated as \<open>r0 * (1 - t) + r1 * t\<close>.
\<close>

definition clamper :: "number \<Rightarrow> number \<Rightarrow> number \<Rightarrow> number" where
  "clamper a b v = (if a > b then Math_max b (Math_min a v) else Math_max a (Math_min b v))"

text \<open>Modelled from the spec: d3-scale's \<open>normalize\<close>, which is not under src/; it
  takes the value to its place between \<open>a\<close> and \<open>b\<close>.\<close>

definition normalize :: "number \<Rightarrow> number \<Rightarrow> number \<Rightarrow> number" where
  "normalize a b v =
     (let b' = b - a
      in if truthy b' then (v - a) / b' else if b' = NaN then NaN else Fin 0.5)"

text \<open>Modelled from the spec: d3-interpolate's \<open>interpolateNumber\<close>, which is not
  under src/; the linear map of the spec onto the range.\<close>

definition interpolateNumber :: "number \<Rightarrow> number \<Rightarrow> number \<Rightarrow> number" where
  "interpolateNumber a b t = a * (Fin 1 - t) + b * t"

text \<open>Modelled from the spec: d3-scale's \<open>bimap\<close>, which is not under src/; it
  composes the two for a domain in either order.\<close>

definition bimap :: "number \<Rightarrow> number \<Rightarrow> number \<Rightarrow> number \<Rightarrow> number \<Rightarrow> number" where
  "bimap d0 d1 r0 r1 v =
     (if d1 < d0 then interpolateNumber r1 r0 (normalize d1 d0 v)
      else interpolateNumber r0 r1 (normalize d0 d1 v))"

text \<open>Modelled from the spec: the scale itself, \<open>undefined\<close> (here \<open>None\<close>) on
  \<open>NaN\<close>; d3-scale's code is not under src/.\<close>

definition scaleLinear :: "number \<Rightarrow> number \<Rightarrow> number \<Rightarrow> number \<Rightarrow> number \<Rightarrow> number option" where
  "scaleLinear d0 d1 r0 r1 v =
     (if v = NaN then None else Some (bimap d0 d1 r0 r1 (clamper d0 d1 v)))"

section \<open>The canvas\<close>

text \<open>
  The 2D context is the browser's, specified by the HTML standard. What the heat map
  needs of it: which calls throw, and which pixels of the bitmap are not transparent.
  \<^item> The arguments of \<open>createRadialGradient\<close> are of the IDL type \<open>double\<close>: a
    value that is not finite is a \<open>TypeError\<close>; a negative radius is an
    \<open>IndexSizeError\<close>.
  \<^item> \<open>addColorStop\<close> throws a \<open>SyntaxError\<close> when its colour does not parse, and an
    \<open>IndexSizeError\<close> when its offset is outside \<open>[0, 1]\<close>.
  \<^item> \<open>arc\<close>, \<open>clearRect\<close>, \<open>setTransform\<close> and \<open>drawImage\<close> take
    \<open>unrestricted double\<close>s and return without effect when one is not finite; \<open>arc\<close>
    throws an \<open>IndexSizeError\<close> on a negative radius, \<open>drawImage\<close> an
    \<open>InvalidStateError\<close> on a source canvas of width or height zero.
\<close>

datatype Exception = TypeError | IndexSizeError | SyntaxError | InvalidStateError

record RGBColor =
  rgb_r :: number
  rgb_g :: number
  rgb_b :: number

text \<open>The template string \<open>rgba(r,g,b,alpha)\<close>, kept as its four interpolated values;
  \<open>alpha\<close> is absent when the scale returned \<open>undefined\<close>. It parses as a CSS colour
  when the four are printed as numbers, which \<open>NaN\<close>, \<open>Infinity\<close> and \<open>undefined\<close>
  are not.\<close>

record CssColor =
  css_rgb :: RGBColor
  css_alpha :: "number option"

definition css_parses :: "CssColor \<Rightarrow> bool" where
  "css_parses c =
     (is_finite (rgb_r (css_rgb c)) \<and> is_finite (rgb_g (css_rgb c)) \<and>
      is_finite (rgb_b (css_rgb c)) \<and>
      (case css_alpha c of None \<Rightarrow> False | Some a \<Rightarrow> is_finite a))"

definition createRadialGradient ::
  "number \<Rightarrow> number \<Rightarrow> number \<Rightarrow> number \<Rightarrow> number \<Rightarrow> number \<Rightarrow> Exception option" where
  "createRadialGradient x0 y0 r0 x1 y1 r1 =
     (if is_finite x0 \<and> is_finite y0 \<and> is_finite r0 \<and>
         is_finite x1 \<and> is_finite y1 \<and> is_finite r1
      then (if r0 < Fin 0 \<or> r1 < Fin 0 then Some IndexSizeError else None)
      else Some TypeError)"

definition addColorStop :: "number \<Rightarrow> CssColor \<Rightarrow> Exception option" where
  "addColorStop offset color =
     (if offset < Fin 0 \<or> offset > Fin 1 then Some IndexSizeError
      else if css_parses color then None
      else Some SyntaxError)"

definition arc :: "number \<Rightarrow> number \<Rightarrow> number \<Rightarrow> Exception option" where
  "arc cx cy r =
     (if is_finite cx \<and> is_finite cy \<and> is_finite r
      then (if r < Fin 0 then Some IndexSizeError else None)
      else None)"

text \<open>One filled radial gradient on the offscreen canvas.\<close>

record Splat =
  splat_x :: number
  splat_y :: number
  splat_r :: number
  splat_inner :: CssColor
  splat_outer :: CssColor

text \<open>
  A canvas element: the size of its bitmap, whether \<open>getContext('2d')\<close> returns a
  context, the scale of the context's current transformation (the code only sets
  uniform scales), and the set of the bitmap's pixels that are not transparent. Sizes
  are taken below \<open>2\<^sup>3\<^sup>1\<close>, where assigning a number to \<open>canvas.width\<close> stores its
  integer part; a value that is not finite stores \<open>0\<close>.
\<close>

record Canvas =
  canvas_width :: nat
  canvas_height :: nat
  context2d :: bool
  ctx_scale :: number
  painted :: "(nat \<times> nat) set"

fun to_unsigned_long :: "number \<Rightarrow> nat" where
  "to_unsigned_long (Fin a) = nat \<lfloor>a\<rfloor>"
| "to_unsigned_long _ = 0"

text \<open>Assigning \<open>canvas.width\<close> and \<open>canvas.height\<close> clears the bitmap to transparent
  black and resets the context to its default state.\<close>

definition set_size :: "number \<Rightarrow> number \<Rightarrow> Canvas \<Rightarrow> Canvas" where
  "set_size w h canvas =
     canvas\<lparr>canvas_width := to_unsigned_long w, canvas_height := to_unsigned_long h,
            ctx_scale := Fin 1, painted := {}\<rparr>"

text \<open>\<open>ctx.setTransform(s, 0, 0, s, 0, 0)\<close>.\<close>

definition setTransform :: "number \<Rightarrow> Canvas \<Rightarrow> Canvas" where
  "setTransform s canvas = (if is_finite s then canvas\<lparr>ctx_scale := s\<rparr> else canvas)"

text \<open>
  \<open>ctx.clearRect(0, 0, w, h)\<close> under the scale \<open>s\<close> clears the device rectangle from
  the origin to \<open>(w * s, h * s)\<close>. The pixel \<open>(i, j)\<close> covers the unit square from
  \<open>(i, j)\<close> to \<open>(i + 1, j + 1)\<close>; it becomes transparent when the rectangle covers it.
\<close>

definition in_cleared_rect :: "number \<Rightarrow> number \<Rightarrow> number \<Rightarrow> nat \<times> nat \<Rightarrow> bool" where
  "in_cleared_rect w h s p =
     (Fin (real (fst p + 1)) \<le> w * s \<and> Fin (real (snd p + 1)) \<le> h * s)"

definition clearRect :: "number \<Rightarrow> number \<Rightarrow> Canvas \<Rightarrow> Canvas" where
  "clearRect w h canvas =
     (if is_finite w \<and> is_finite h
      then canvas\<lparr>painted :=
             Set.filter (\<lambda>p. if in_cleared_rect w h (ctx_scale canvas) p then False else True)
               (painted canvas)\<rparr>
      else canvas)"

record Offscreen =
  off_width :: nat
  off_height :: nat
  off_splats :: "Splat list"

text \<open>
  What the libraries and the browser compute and the repository does not: the colour
  interpolator \<open>d3.interpolateRdYlGn\<close>, the parser \<open>d3.color(...).rgb()\<close>, and the
  rasteriser, which gives the pixels that compositing the blurred offscreen canvas into
  a destination rectangle of the given size, under the given scale, paints.
\<close>

record Platform =
  interpolateRdYlGn :: "number \<Rightarrow> string"
  d3_color :: "string \<Rightarrow> RGBColor option"
  rasterize :: "Offscreen \<Rightarrow> number \<Rightarrow> number \<Rightarrow> number \<Rightarrow> (nat \<times> nat) set"

text \<open>
  \<open>ctx.drawImage(off, 0, 0, w, h)\<close> with the blur filter and the default compositing
  \<open>source-over\<close>, which never makes a pixel more transparent. A canvas on which nothing
  was drawn is transparent black, blurred or not, and compositing it changes nothing.
\<close>

definition drawImage :: "Platform \<Rightarrow> Offscreen \<Rightarrow> number \<Rightarrow> number \<Rightarrow> Canvas \<Rightarrow> Canvas \<times> Exception option" where
  "drawImage P off w h canvas =
     (if is_finite w \<and> is_finite h
      then (if off_width off = 0 \<or> off_height off = 0 then (canvas, Some InvalidStateError)
            else (canvas\<lparr>painted := painted canvas \<union>
                    (if off_splats off = [] then {} else rasterize P off w h (ctx_scale canvas))\<rparr>,
                  None))
      else (canvas, None))"

section \<open>Heatmap.tsx\<close>

record HeatmapPoint = Position +
  weight :: "number option"

datatype CoordinateSpace = Screen | Court

text \<open>The props the drawing code reads (\<open>colorScheme\<close> and \<open>className\<close> are not).\<close>

record HeatmapProps = Size +
  data :: "HeatmapPoint list"
  radius :: "number option"
  maxOpacity :: "number option"
  leagueAverage :: "number option"
  leagueBand :: "number option"
  coordinateSpace :: "CoordinateSpace option"
  courtDimensions :: "CourtDimensions option"
  autoResize :: "bool option"

definition avg :: "HeatmapProps \<Rightarrow> number" where
  "avg props = nullish (leagueAverage props) (Fin 0.45)"

definition band :: "HeatmapProps \<Rightarrow> number" where
  "band props = Math_max (Fin 0.05) (Math_min (Fin 0.4) (nullish (leagueBand props) (Fin 0.2)))"

definition colorScale :: "Platform \<Rightarrow> HeatmapProps \<Rightarrow> number \<Rightarrow> string option" where
  "colorScale P props =
     scaleSequential (interpolateRdYlGn P) (avg props - band props) (avg props + band props)"

definition emphasisScale :: "HeatmapProps \<Rightarrow> number \<Rightarrow> number option" where
  "emphasisScale props =
     scaleLinear (Fin 0) (band props) (Fin 0.18) (nullish (maxOpacity props) (Fin 0.85))"

text \<open>The block "Map coordinates if needed" of the loop body: where the point is drawn.\<close>

definition pointOnScreen :: "HeatmapProps \<Rightarrow> number \<Rightarrow> number \<Rightarrow> HeatmapPoint \<Rightarrow> Position" where
  "pointOnScreen props dw dh p =
     (if nullish (coordinateSpace props) Screen = Court
      then courtToScreenCoordinates \<lparr>x = x p, y = y p\<rparr>
             ((nullish (courtDimensions props) DEFAULT_COURT_DIMENSIONS)
                \<lparr>width := dw, height := dh\<rparr>)
      else \<lparr>x = x p, y = y p\<rparr>)"

text \<open>
  The body of the loop over \<open>data\<close>, for one point: \<open>(None, None)\<close> is \<open>continue\<close>,
  \<open>(Some s, None)\<close> a splat filled on the offscreen canvas, \<open>(None, Some e)\<close> an
  exception thrown by the context.
\<close>

definition drawPoint ::
  "Platform \<Rightarrow> HeatmapProps \<Rightarrow> number \<Rightarrow> number \<Rightarrow> HeatmapPoint \<Rightarrow> Splat option \<times> Exception option" where
  "drawPoint P props dw dh p =
     (let prob = (case weight p of Some wt \<Rightarrow> wt | None \<Rightarrow> avg props);
          screen = pointOnScreen props dw dh p;
          px = x screen;
          py = y screen;
          t = colorScale P props prob;
          color = (case t of None \<Rightarrow> None | Some s \<Rightarrow> d3_color P s)
      in case color of
           None \<Rightarrow> (None, None)
         | Some c \<Rightarrow>
             let delta = Math_abs (prob - avg props);
                 alpha = emphasisScale props delta;
                 radiusFactor = Fin 0.9 + Fin 1.2 * (delta / band props);
                 r = Math_max (Fin 8) (nullish (radius props) (Fin 24) * radiusFactor);
                 inner = \<lparr>css_rgb = c, css_alpha = alpha\<rparr>;
                 outer = \<lparr>css_rgb = c, css_alpha = Some (Fin 0)\<rparr>
             in case createRadialGradient px py (Fin 0) px py r of
                  Some e \<Rightarrow> (None, Some e)
                | None \<Rightarrow>
                   (case addColorStop (Fin 0) inner of
                      Some e \<Rightarrow> (None, Some e)
                    | None \<Rightarrow>
                       (case addColorStop (Fin 1) outer of
                          Some e \<Rightarrow> (None, Some e)
                        | None \<Rightarrow>
                           (case arc px py r of
                              Some e \<Rightarrow> (None, Some e)
                            | None \<Rightarrow>
                               (Some \<lparr>splat_x = px, splat_y = py, splat_r = r,
                                      splat_inner = inner, splat_outer = outer\<rparr>,
                                None)))))"

text \<open>The loop: the splats filled so far, and the exception that ended it, if any.
  The splats add up on the offscreen canvas (\<open>globalCompositeOperation = 'lighter'\<close>);
  the order of the list is the order of the calls.\<close>

fun drawPoints ::
  "Platform \<Rightarrow> HeatmapProps \<Rightarrow> number \<Rightarrow> number \<Rightarrow> HeatmapPoint list \<Rightarrow> Splat list \<Rightarrow>
   Splat list \<times> Exception option" where
  "drawPoints P props dw dh [] filled = (filled, None)"
| "drawPoints P props dw dh (p # ps) filled =
     (case drawPoint P props dw dh p of
        (_, Some e) \<Rightarrow> (filled, Some e)
      | (None, None) \<Rightarrow> drawPoints P props dw dh ps filled
      | (Some s, None) \<Rightarrow> drawPoints P props dw dh ps (filled @ [s]))"

record Container =
  clientWidth :: nat
  clientHeight :: nat

text \<open>What the effect reads of the page: the two refs, \<open>window.devicePixelRatio\<close>, and
  whether the canvas made by \<open>document.createElement\<close> gives a 2D context.\<close>

record Dom =
  canvasRef :: "Canvas option"
  containerRef :: "Container option"
  devicePixelRatio :: number
  offscreenContext2d :: bool

text \<open>The sizing that both branches of \<open>if (autoResize && containerRef.current)\<close> do,
  each on its own \<open>w\<close> and \<open>h\<close>.\<close>

definition sizeCanvas :: "number \<Rightarrow> number \<Rightarrow> number \<Rightarrow> Canvas \<Rightarrow> Canvas" where
  "sizeCanvas w h dpr canvas =
     (let targetW = Math_max (Fin 1) (Math_floor (w * dpr));
          targetH = Math_max (Fin 1) (Math_floor (h * dpr))
      in setTransform dpr
           (if strict_neq (Fin (real (canvas_width canvas))) targetW \<or>
               strict_neq (Fin (real (canvas_height canvas))) targetH
            then set_size targetW targetH canvas
            else canvas))"

text \<open>The block "Resolve canvas drawing size if autoResize".\<close>

definition resolveSize :: "HeatmapProps \<Rightarrow> Dom \<Rightarrow> Canvas \<Rightarrow> Canvas" where
  "resolveSize props page canvas =
     (let dpr = logical_or (devicePixelRatio page) (Fin 1)
      in case containerRef page of
           Some parent \<Rightarrow>
             if nullish (autoResize props) False
             then sizeCanvas
                    (logical_or (Fin (real (clientWidth parent))) (width props))
                    (logical_or (Fin (real (clientHeight parent))) (height props))
                    dpr canvas
             else sizeCanvas (width props) (height props) dpr canvas
         | None \<Rightarrow> sizeCanvas (width props) (height props) dpr canvas)"

definition drawWidth :: "HeatmapProps \<Rightarrow> Dom \<Rightarrow> number" where
  "drawWidth props page =
     (case containerRef page of
        Some parent \<Rightarrow> Fin (real (clientWidth parent))
      | None \<Rightarrow> width props)"

definition drawHeight :: "HeatmapProps \<Rightarrow> Dom \<Rightarrow> number" where
  "drawHeight props page =
     (case containerRef page of
        Some parent \<Rightarrow> Fin (real (clientHeight parent))
      | None \<Rightarrow> height props)"

text \<open>
  The drawing effect of the component: the page after the pass, and the exception that
  ended the pass, if one was thrown.
\<close>

definition drawEffect :: "Platform \<Rightarrow> HeatmapProps \<Rightarrow> Dom \<Rightarrow> Dom \<times> Exception option" where
  "drawEffect P props page =
     (case canvasRef page of
        None \<Rightarrow> (page, None)
      | Some canvas \<Rightarrow>
          if context2d canvas then
            let sized = resolveSize props page canvas;
                cleared = clearRect (drawWidth props page) (drawHeight props page) sized
            in if offscreenContext2d page then
                 let off_w = to_unsigned_long (Math_max (Fin 1) (Math_floor (drawWidth props page)));
                     off_h = to_unsigned_long (Math_max (Fin 1) (Math_floor (drawHeight props page)))
                 in case drawPoints P props (drawWidth props page) (drawHeight props page)
                           (data props) [] of
                      (splats, Some e) \<Rightarrow> (page\<lparr>canvasRef := Some cleared\<rparr>, Some e)
                    | (splats, None) \<Rightarrow>
                        (case drawImage P
                                \<lparr>off_width = off_w, off_height = off_h, off_splats = splats\<rparr>
                                (drawWidth props page) (drawHeight props page) cleared of
                           (shown, thrown) \<Rightarrow> (page\<lparr>canvasRef := Some shown\<rparr>, thrown))
               else (page\<lparr>canvasRef := Some cleared\<rparr>, None)
          else (page, None))"

text \<open>
  A platform for the examples: the interpolator returns one colour string, the parser
  reads it, and the rasteriser paints the pixel under the centre of every splat.
\<close>

definition example_platform :: Platform where
  "example_platform =
     \<lparr>interpolateRdYlGn = (\<lambda>t. ''rgb(249, 247, 174)''),
      d3_color = (\<lambda>s. Some \<lparr>rgb_r = Fin 249, rgb_g = Fin 247, rgb_b = Fin 174\<rparr>),
      rasterize = (\<lambda>off w h s.
        (\<lambda>sp. (to_unsigned_long (splat_x sp * s), to_unsigned_long (splat_y sp * s))) `
          set (off_splats off))\<rparr>"





text \<open>The painted pixels of a canvas lie inside its bitmap.\<close>

definition bitmap_ok :: "Canvas \<Rightarrow> bool" where
  "bitmap_ok canvas =
     (painted canvas \<subseteq> {..<canvas_width canvas} \<times> {..<canvas_height canvas})"

section \<open>Example inputs\<close>

text \<open>The props \<open>ShotPredictor\<close> passes to \<open>Heatmap\<close>, at its default size of
  \<open>500 x 470\<close>.\<close>

definition shotPredictorHeatmap :: "HeatmapPoint list \<Rightarrow> HeatmapProps" where
  "shotPredictorHeatmap points =
     \<lparr>width = Fin 500, height = Fin 470, data = points,
      radius = Some (Fin 28), maxOpacity = Some (Fin 0.9),
      leagueAverage = Some (Fin 0.45), leagueBand = Some (Fin 0.2),
      coordinateSpace = Some Court,
      courtDimensions = Some
        \<lparr>width = Fin 500, height = Fin 470, courtLengthFeet = Fin 47, courtWidthFeet = Fin 50\<rparr>,
      autoResize = Some True\<rparr>"

text \<open>A heat map of \<open>500 x 470\<close> with every optional prop left out.\<close>

definition plainHeatmap :: "HeatmapPoint list \<Rightarrow> HeatmapProps" where
  "plainHeatmap points =
     \<lparr>width = Fin 500, height = Fin 470, data = points,
      radius = None, maxOpacity = None, leagueAverage = None, leagueBand = None,
      coordinateSpace = None, courtDimensions = None, autoResize = None\<rparr>"

text \<open>A page at device pixel ratio 1: a canvas with a bitmap of \<open>500 x 470\<close> that holds
  the given painted pixels, in a container of the given client size.\<close>

definition page_with :: "nat \<Rightarrow> nat \<Rightarrow> (nat \<times> nat) set \<Rightarrow> Dom" where
  "page_with cw ch pixels =
     \<lparr>canvasRef = Some
        \<lparr>canvas_width = 500, canvas_height = 470, context2d = True, ctx_scale = Fin 1,
         painted = pixels\<rparr>,
      containerRef = Some \<lparr>clientWidth = cw, clientHeight = ch\<rparr>,
      devicePixelRatio = Fin 1,
      offscreenContext2d = True\<rparr>"

section \<open>Arithmetic on finite numbers\<close>

lemma Fin_plus [simp]: "Fin a + Fin b = Fin (a + b)"
  by (simp add: plus_number_def)

lemma Fin_minus [simp]: "Fin a - Fin b = Fin (a - b)"
  by (simp add: minus_number_def)

lemma Fin_times [simp]: "Fin a * Fin b = Fin (a * b)"
  by (simp add: times_number_def)

lemma Fin_divide [simp]: "Fin a / Fin b = (if b = 0 then signed_inf a else Fin (a / b))"
  by (simp add: divide_number_def)

lemma Fin_le [simp]: "Fin a \<le> Fin b \<longleftrightarrow> a \<le> b"
  by (simp add: less_eq_number_def)

lemma Fin_less [simp]: "Fin a < Fin b \<longleftrightarrow> a < b"
  by (simp add: less_number_def)

lemma Fin_abs [simp]: "\<bar>Fin a\<bar> = Fin \<bar>a\<bar>"
  by (simp add: abs_number_def)


lemma Math_pow_two [simp]: "Math_pow (Fin a) 2 = Fin (a\<^sup>2)"
  by (simp add: numeral_2_eq_2 power2_eq_square)

section \<open>The coordinate mapper\<close>









text \<open>
  C2. \<open>courtToScreenCoordinates\<close> does not undo \<open>screenToCourtCoordinates\<close>: the pixel
  \<open>(250, 235)\<close> on the \<open>500 x 470\<close> surface with feet extents \<open>47\<close> and \<open>50\<close> goes to
  \<open>(0, 225)\<close> and comes back as \<open>(0, 2115)\<close>, which is not the pixel.
\<close>

theorem round_trip_not_inverse:
  "courtToScreenCoordinates
     (screenToCourtCoordinates \<lparr>x = Fin 250, y = Fin 235\<rparr>
        \<lparr>width = Fin 500, height = Fin 470, courtLengthFeet = Fin 47, courtWidthFeet = Fin 50\<rparr>)
     \<lparr>width = Fin 500, height = Fin 470, courtLengthFeet = Fin 47, courtWidthFeet = Fin 50\<rparr> =
   \<lparr>x = Fin 0, y = Fin 2115\<rparr> \<and>
   courtToScreenCoordinates
     (screenToCourtCoordinates \<lparr>x = Fin 250, y = Fin 235\<rparr>
        \<lparr>width = Fin 500, height = Fin 470, courtLengthFeet = Fin 47, courtWidthFeet = Fin 50\<rparr>)
     \<lparr>width = Fin 500, height = Fin 470, courtLengthFeet = Fin 47, courtWidthFeet = Fin 50\<rparr> \<noteq>
   \<lparr>x = Fin 250, y = Fin 235\<rparr>"
  by (simp add: screenToCourtCoordinates_def courtToScreenCoordinates_def Let_def)


text \<open>
  C4. The click handler classifies the analytics position \<open>(a, b)\<close> by
  \<open>d = sqrt ((a / 10)\<^sup>2 + ((b - 80) / 10)\<^sup>2)\<close>: \<open>Restricted Area\<close> if \<open>d \<le> 4\<close>,
  \<open>In The Paint (Non-RA)\<close> if \<open>4 < d \<le> 8\<close>; beyond \<open>23.75\<close> a corner three
  (\<open>Right Corner 3\<close> if \<open>0 < a\<close>, else \<open>Left Corner 3\<close>) exactly when \<open>200 < \<bar>a\<bar>\<close> and
  \<open>b < 150\<close>, otherwise \<open>Above the Break 3\<close>; everything else is \<open>Mid-Range\<close>. The shot
  type sent is \<open>3PT Field Goal\<close> iff \<open>23.75 < d\<close>, otherwise \<open>2PT Field Goal\<close>. With a
  player selected, the handler sends this object for the position that
  \<open>screenToCourtCoordinates\<close> gives the click.
\<close>

theorem shotData_classifier:
  "shotData \<lparr>x = Fin a, y = Fin b\<rparr> player =
     \<lparr>LOC_X = Fin a,
      LOC_Y = Fin b,
      SHOT_DISTANCE = Fin (sqrt ((a / 10)\<^sup>2 + ((b - 80) / 10)\<^sup>2)),
      SHOT_TYPE =
        (if 23.75 < sqrt ((a / 10)\<^sup>2 + ((b - 80) / 10)\<^sup>2)
         then ''3PT Field Goal'' else ''2PT Field Goal''),
      SHOT_ZONE_BASIC =
        (if sqrt ((a / 10)\<^sup>2 + ((b - 80) / 10)\<^sup>2) \<le> 4 then ''Restricted Area''
         else if sqrt ((a / 10)\<^sup>2 + ((b - 80) / 10)\<^sup>2) \<le> 8 then ''In The Paint (Non-RA)''
         else if 23.75 < sqrt ((a / 10)\<^sup>2 + ((b - 80) / 10)\<^sup>2) then
           (if 200 < \<bar>a\<bar> \<and> b < 150
            then (if 0 < a then ''Right Corner 3'' else ''Left Corner 3'')
            else ''Above the Break 3'')
         else ''Mid-Range''),
      PLAYER_NAME = player\<rparr> \<and>
   handleCourtClick (Some (c # cs)) event rect w h =
     PredictShot (shotData
       (screenToCourtCoordinates
          \<lparr>x = clientX event - rect_left rect, y = clientY event - rect_top rect\<rparr>
          \<lparr>width = w, height = h, courtLengthFeet = Fin 47, courtWidthFeet = Fin 50\<rparr>)
       (c # cs))"
  by (simp add: shotData_def handleCourtClick_def Let_def Math_abs_def)

text \<open>
  C5. For a finite position \<open>(a, b)\<close> and finite extents \<open>len\<close> and \<open>wid\<close>,
  \<open>isWithinCourtBounds\<close> holds iff \<open>0 \<le> a \<le> len\<close> and \<open>0 \<le> b \<le> wid\<close>, both ends
  included. So it holds at \<open>(0, 0)\<close> and at \<open>(len, wid)\<close> (for extents that are not
  negative, where the two intervals are not empty), and it fails as soon as a component
  is negative or exceeds its extent.
\<close>

theorem isWithinCourtBounds_iff:
  "(isWithinCourtBounds \<lparr>x = Fin a, y = Fin b\<rparr>
      \<lparr>width = w, height = h, courtLengthFeet = Fin len, courtWidthFeet = Fin wid\<rparr> \<longleftrightarrow>
      0 \<le> a \<and> a \<le> len \<and> 0 \<le> b \<and> b \<le> wid) \<and>
   (0 \<le> len \<and> 0 \<le> wid \<longrightarrow>
      isWithinCourtBounds \<lparr>x = Fin 0, y = Fin 0\<rparr>
        \<lparr>width = w, height = h, courtLengthFeet = Fin len, courtWidthFeet = Fin wid\<rparr> \<and>
      isWithinCourtBounds \<lparr>x = Fin len, y = Fin wid\<rparr>
        \<lparr>width = w, height = h, courtLengthFeet = Fin len, courtWidthFeet = Fin wid\<rparr>) \<and>
   (a < 0 \<or> b < 0 \<or> len < a \<or> wid < b \<longrightarrow>
      \<not> isWithinCourtBounds \<lparr>x = Fin a, y = Fin b\<rparr>
        \<lparr>width = w, height = h, courtLengthFeet = Fin len, courtWidthFeet = Fin wid\<rparr>)"
  by (auto simp add: isWithinCourtBounds_def)

theorem isWithinCourtBounds_iff_witness:
  "isWithinCourtBounds \<lparr>x = Fin 0, y = Fin 0\<rparr> DEFAULT_COURT_DIMENSIONS \<and>
   isWithinCourtBounds \<lparr>x = Fin 94, y = Fin 50\<rparr> DEFAULT_COURT_DIMENSIONS \<and>
   \<not> isWithinCourtBounds \<lparr>x = Fin 95, y = Fin 10\<rparr> DEFAULT_COURT_DIMENSIONS"
  using isWithinCourtBounds_iff [of 95 10 "Fin 800" "Fin 400" 94 50]
  by (simp add: DEFAULT_COURT_DIMENSIONS_def)



text \<open>
  C10. \<open>screenToCourtCoordinates\<close> reads only the \<open>width\<close> and \<open>height\<close> of its
  dimensions argument: two records that agree on them give the same position, whatever
  their feet extents are.
\<close>

theorem screenToCourtCoordinates_ignores_feet:
  "width d1 = width d2 \<Longrightarrow>
   height d1 = height d2 \<Longrightarrow>
   screenToCourtCoordinates p d1 = screenToCourtCoordinates p d2"
  by (simp add: screenToCourtCoordinates_def)

theorem screenToCourtCoordinates_ignores_feet_witness:
  "screenToCourtCoordinates \<lparr>x = Fin 250, y = Fin 235\<rparr>
     \<lparr>width = Fin 500, height = Fin 470, courtLengthFeet = Fin 47, courtWidthFeet = Fin 50\<rparr> =
   screenToCourtCoordinates \<lparr>x = Fin 250, y = Fin 235\<rparr>
     \<lparr>width = Fin 500, height = Fin 470, courtLengthFeet = Fin 94, courtWidthFeet = Fin 0\<rparr>"
  using screenToCourtCoordinates_ignores_feet
    [of "\<lparr>width = Fin 500, height = Fin 470, courtLengthFeet = Fin 47, courtWidthFeet = Fin 50\<rparr>"
        "\<lparr>width = Fin 500, height = Fin 470, courtLengthFeet = Fin 94, courtWidthFeet = Fin 0\<rparr>"
        "\<lparr>x = Fin 250, y = Fin 235\<rparr>"]
  by simp

section \<open>The heat map: scales\<close>




lemma Math_abs_Fin [simp]: "Math_abs (Fin a) = Fin \<bar>a\<bar>"
  by (simp add: Math_abs_def)















section \<open>The heat map: the render pass\<close>

lemma to_unsigned_long_pos:
  "is_finite v \<Longrightarrow> 0 < to_unsigned_long (Math_max (Fin 1) (Math_floor v))"
  by (cases v) (auto simp: max_def)




lemma drawImage_blank:
  assumes "is_finite w \<and> is_finite h \<Longrightarrow> off_width off \<noteq> 0 \<and> off_height off \<noteq> 0"
    and "off_splats off = []"
  shows "drawImage P off w h canvas = (canvas, None)"
  using assms by (auto simp add: drawImage_def)













text \<open>With no point to draw, the pass ends with the canvas as the clear left it.\<close>

lemma drawEffect_empty:
  assumes "data props = []" "canvasRef page = Some canvas" "context2d canvas"
  shows "drawEffect P props page =
    (page\<lparr>canvasRef := Some (clearRect (drawWidth props page) (drawHeight props page)
                              (resolveSize props page canvas))\<rparr>, None)"
proof -
  have "drawImage P
          \<lparr>off_width = to_unsigned_long (Math_max (Fin 1) (Math_floor (drawWidth props page))),
           off_height = to_unsigned_long (Math_max (Fin 1) (Math_floor (drawHeight props page))),
           off_splats = []\<rparr>
          (drawWidth props page) (drawHeight props page) c = (c, None)" for c
    using to_unsigned_long_pos [of "drawWidth props page"]
      to_unsigned_long_pos [of "drawHeight props page"]
    by (intro drawImage_blank) simp_all
  then show ?thesis
    unfolding drawEffect_def Let_def assms option.case by (simp add: assms)
qed

lemma painted_clearRect: "painted (clearRect w h c) \<subseteq> painted c"
  by (auto simp: clearRect_def)

lemma painted_clearRect_inside:
  "is_finite w \<Longrightarrow> is_finite h \<Longrightarrow> in_cleared_rect w h (ctx_scale c) p \<Longrightarrow>
   p \<notin> painted (clearRect w h c)"
  by (simp add: clearRect_def)

lemma painted_sizeCanvas: "painted (sizeCanvas w h dpr c) \<subseteq> painted c"
  by (auto simp: sizeCanvas_def setTransform_def set_size_def Let_def)

lemma painted_resolveSize: "painted (resolveSize props page c) \<subseteq> painted c"
  using painted_sizeCanvas by (auto simp: resolveSize_def Let_def split: option.splits)

lemma sizeCanvas_covered:
  assumes "0 < dpr" "1 \<le> w * dpr" "1 \<le> h * dpr" "bitmap_ok c"
  shows "painted (clearRect (Fin w) (Fin h) (sizeCanvas (Fin w) (Fin h) (Fin dpr) c)) = {}"
proof -
  have fl: "max 1 (real_of_int \<lfloor>w * dpr\<rfloor>) \<le> w * dpr" "max 1 (real_of_int \<lfloor>h * dpr\<rfloor>) \<le> h * dpr"
    using assms(2,3) by (simp_all add: max_def)
  show ?thesis
  proof (cases "strict_neq (Fin (real (canvas_width c)))
                  (Math_max (Fin 1) (Math_floor (Fin w * Fin dpr))) \<or>
                strict_neq (Fin (real (canvas_height c)))
                  (Math_max (Fin 1) (Math_floor (Fin h * Fin dpr)))")
    case True
    then show ?thesis
      by (simp add: sizeCanvas_def Let_def setTransform_def set_size_def clearRect_def)
  next
    case False
    then have eq: "real (canvas_width c) = max 1 (real_of_int \<lfloor>w * dpr\<rfloor>)"
      "real (canvas_height c) = max 1 (real_of_int \<lfloor>h * dpr\<rfloor>)"
      by (simp_all add: strict_neq_def strict_eq_def split: if_splits)
    have "in_cleared_rect (Fin w) (Fin h) (Fin dpr) p" if "p \<in> painted c" for p
    proof -
      from that assms(4) have "fst p < canvas_width c" "snd p < canvas_height c"
        by (auto simp: bitmap_ok_def)
      then have "real (fst p + 1) \<le> real (canvas_width c)"
        "real (snd p + 1) \<le> real (canvas_height c)"
        by linarith+
      then have "real (fst p + 1) \<le> w * dpr" "real (snd p + 1) \<le> h * dpr"
        using eq fl by linarith+
      then show ?thesis by (simp add: in_cleared_rect_def)
    qed
    then show ?thesis
      using False by (auto simp add: sizeCanvas_def Let_def setTransform_def clearRect_def)
  qed
qed

text \<open>Under \<open>autoResize\<close>, in a container that is at least one device pixel wide and
  high, the cleared rectangle covers the bitmap: the surface comes out transparent.\<close>

lemma autoResize_covered:
  assumes "nullish (autoResize props) False" "containerRef page = Some parent"
    and "devicePixelRatio page = Fin dpr" "0 < dpr"
    and "1 \<le> real (clientWidth parent) * dpr" "1 \<le> real (clientHeight parent) * dpr"
    and "bitmap_ok c"
  shows "painted (clearRect (drawWidth props page) (drawHeight props page)
                   (resolveSize props page c)) = {}"
proof -
  have nz: "real (clientWidth parent) \<noteq> 0" "real (clientHeight parent) \<noteq> 0"
    using assms(5,6) by (cases "clientWidth parent = 0"; cases "clientHeight parent = 0"; simp)+
  show ?thesis
    using sizeCanvas_covered [OF assms(4,5,6,7)] assms(1,2,3,4) nz
    by (simp add: resolveSize_def drawWidth_def drawHeight_def Let_def logical_or_def)
qed

text \<open>
  C8. Rendered with an empty point list, the pass draws no splat and composites an
  empty offscreen canvas, so the surface ends as the clear left it. The clear covers
  the rectangle of the container's client size, which need not be the whole bitmap:
  with the default props on a bitmap of \<open>500 x 470\<close> in a container \<open>300\<close> wide, the
  pixel \<open>(400, 100)\<close> that an earlier pass painted is still painted after the pass. So
  it is with the props of \<open>ShotPredictor\<close>, which set \<open>autoResize\<close>, in a container of
  client size \<open>0\<close>: the bitmap is sized from the props and nothing is cleared.
\<close>

theorem empty_heatmap_keeps_stale_pixel:
  "drawPoints example_platform (plainHeatmap []) (Fin 300) (Fin 470) [] [] = ([], None) \<and>
   drawEffect example_platform (plainHeatmap []) (page_with 300 470 {(400, 100)}) =
     (page_with 300 470 {(400, 100)}, None) \<and>
   drawEffect example_platform (shotPredictorHeatmap []) (page_with 0 0 {(400, 100)}) =
     (page_with 0 0 {(400, 100)}, None)"
  by (auto simp add: drawEffect_def resolveSize_def sizeCanvas_def setTransform_def
      clearRect_def drawWidth_def drawHeight_def drawImage_def in_cleared_rect_def nullish_def
      logical_or_def strict_neq_def strict_eq_def Let_def plainHeatmap_def
      shotPredictorHeatmap_def page_with_def)

section \<open>No internal errors\<close>










end
